theory Spec2Isabelle
  imports Complex_Main "HOL-Library.Log_Nat"
begin

section \<open>The slideshow video generator: data model\<close>

text \<open>
  The development follows the hook \<open>useVideoGenerator\<close> (the timeline, the crossfade,
  the frame loop and the Ken Burns geometry) and the types of \<open>types.ts\<close>.

  A JavaScript \<open>number\<close> is modelled as a rational. The clock of the frame loop, which
  is carried from one frame to the next, is rounded as binary64 does: the step
  \<open>1000 / 30\<close>, each sum \<open>overallTime + frameDuration\<close>, and the product
  \<open>totalDuration * 1000\<close> the sum is compared with. The arithmetic inside one frame (the
  windows, the alphas, the rectangles) and \<open>totalDuration\<close> itself are exact: sums, products
  and quotients are the mathematical ones. A quotient whose divisor is zero is
  \<open>Infinity\<close> or \<open>NaN\<close> in the source and \<open>0\<close> in HOL; a theorem below either keeps
  the divisors away from zero (by hypothesis, or because the path it is about forces
  it), or concludes nothing that depends on the value of such a quotient.
\<close>

datatype PanDirection = Random | ZoomIn | ZoomOut | PanLeft | PanRight | PanUp | PanDown

datatype ImageFit = Cover | Contain

record KenBurns =
  enabled :: bool
  zoomFactor :: rat
  panDirection :: PanDirection

record EffectSettings =
  durationPerImage :: rat
  transitionDuration :: rat
  kenBurns :: KenBurns
  videoWidth :: rat
  videoHeight :: rat
  imageFit :: ImageFit

text \<open>\<open>UploadedImage\<close> of \<open>types.ts\<close>; the \<open>File\<close> handle is left out, nothing reads it.\<close>

record UploadedImage =
  id_img :: string
  dataUrl :: string
  width :: rat
  height :: rat

text \<open>The decoded \<open>HTMLImageElement\<close>: the generator reads its pixel size only.\<close>

record HTMLImageElement =
  el_width :: rat
  el_height :: rat

text \<open>The eight numbers handed to \<open>ctx.drawImage\<close>: source and destination rectangle.\<close>

record DrawImageArgs =
  sx :: rat
  sy :: rat
  sWidth :: rat
  sHeight :: rat
  dx :: rat
  dy :: rat
  dWidth :: rat
  dHeight :: rat

section \<open>Geometry: \<open>applyKenBurnsAndDraw\<close>\<close>

text \<open>The first half of \<open>applyKenBurnsAndDraw\<close>: the rectangles of the fit mode.\<close>

definition fitRects :: "HTMLImageElement \<Rightarrow> ImageFit \<Rightarrow> rat \<Rightarrow> rat \<Rightarrow> DrawImageArgs" where
  "fitRects img fit canvasWidth canvasHeight =
     (let canvasAspect = canvasWidth / canvasHeight;
          imgAspect = el_width img / el_height img;
          r = \<lparr>sx = 0, sy = 0, sWidth = el_width img, sHeight = el_height img,
               dx = 0, dy = 0, dWidth = canvasWidth, dHeight = canvasHeight\<rparr>
      in if fit = Cover then
           (if imgAspect > canvasAspect then
              (let sH = el_height img; sW = sH * canvasAspect
               in r\<lparr>sHeight := sH, sWidth := sW, sx := (el_width img - sW) / 2\<rparr>)
            else
              (let sW = el_width img; sH = sW / canvasAspect
               in r\<lparr>sWidth := sW, sHeight := sH, sy := (el_height img - sH) / 2\<rparr>))
         else
           (if imgAspect > canvasAspect then
              (let dW = canvasWidth; dH = dW / imgAspect
               in r\<lparr>dWidth := dW, dHeight := dH, dy := (canvasHeight - dH) / 2\<rparr>)
            else
              (let dH = canvasHeight; dW = dH * imgAspect
               in r\<lparr>dHeight := dH, dWidth := dW, dx := (canvasWidth - dW) / 2\<rparr>)))"

text \<open>\<open>const zoom = 1 + (kenBurns.zoomFactor - 1) * progressInImage\<close>: no case on the direction.\<close>

definition zoom :: "KenBurns \<Rightarrow> rat \<Rightarrow> rat" where
  "zoom kb progressInImage = 1 + (zoomFactor kb - 1) * progressInImage"

text \<open>\<open>const maxPanOffset = 0.1 * sWidth\<close>, the one bound used on both axes.\<close>

definition maxPanOffset :: "DrawImageArgs \<Rightarrow> rat" where
  "maxPanOffset r = (1 / 10) * sWidth r"

definition offsetX :: "KenBurns \<Rightarrow> DrawImageArgs \<Rightarrow> rat \<Rightarrow> rat" where
  "offsetX kb r progressInImage =
     (if panDirection kb \<noteq> Random \<and> panDirection kb \<noteq> ZoomIn \<and> panDirection kb \<noteq> ZoomOut then
        (if panDirection kb = PanLeft then - maxPanOffset r * progressInImage
         else if panDirection kb = PanRight then maxPanOffset r * progressInImage
         else 0)
      else 0)"

definition offsetY :: "KenBurns \<Rightarrow> DrawImageArgs \<Rightarrow> rat \<Rightarrow> rat" where
  "offsetY kb r progressInImage =
     (if panDirection kb \<noteq> Random \<and> panDirection kb \<noteq> ZoomIn \<and> panDirection kb \<noteq> ZoomOut then
        (if panDirection kb = PanUp then - maxPanOffset r * progressInImage
         else if panDirection kb = PanDown then maxPanOffset r * progressInImage
         else 0)
      else 0)"

text \<open>The block under \<open>if (kenBurns.enabled)\<close>: the source rectangle \<open>r\<close> shrunk and shifted.\<close>

definition kenBurnsRect :: "KenBurns \<Rightarrow> DrawImageArgs \<Rightarrow> rat \<Rightarrow> DrawImageArgs" where
  "kenBurnsRect kb r progressInImage =
     (let newSWidth = sWidth r / zoom kb progressInImage;
          newSHeight = sHeight r / zoom kb progressInImage;
          panX = (sWidth r - newSWidth) / 2;
          panY = (sHeight r - newSHeight) / 2
      in r\<lparr>sx := sx r + panX + offsetX kb r progressInImage,
            sy := sy r + panY + offsetY kb r progressInImage,
            sWidth := newSWidth,
            sHeight := newSHeight\<rparr>)"

text \<open>The arguments of the final \<open>ctx.drawImage(img, sx, sy, sWidth, sHeight, dx, dy, dWidth, dHeight)\<close>.\<close>

definition applyKenBurnsAndDraw ::
  "HTMLImageElement \<Rightarrow> EffectSettings \<Rightarrow> rat \<Rightarrow> rat \<Rightarrow> rat \<Rightarrow> DrawImageArgs" where
  "applyKenBurnsAndDraw img currentSettings progressInImage canvasWidth canvasHeight =
     (let r = fitRects img (imageFit currentSettings) canvasWidth canvasHeight
      in if enabled (kenBurns currentSettings)
         then kenBurnsRect (kenBurns currentSettings) r progressInImage
         else r)"

section \<open>Timeline: the segment windows and the scan of \<open>drawFrame\<close>\<close>

text \<open>\<open>n\<close> is \<open>images.length\<close>, \<open>i\<close> the loop index.\<close>

definition imageDisplayStartTime :: "EffectSettings \<Rightarrow> nat \<Rightarrow> rat" where
  "imageDisplayStartTime s i =
     of_nat i * durationPerImage s - (if i > 0 then transitionDuration s else 0)"

definition imageDisplayEndTime :: "nat \<Rightarrow> EffectSettings \<Rightarrow> nat \<Rightarrow> rat" where
  "imageDisplayEndTime n s i =
     imageDisplayStartTime s i + durationPerImage s
       + (if int i < int n - 1 then transitionDuration s else 0)"

text \<open>
  \<open>inWindow\<close> is the test of the loop body: the half-open window of image \<open>i\<close> holds the
  time. The \<open>for\<close> loop with its \<open>break\<close>: the indices still to visit are the list argument;
  the result is \<open>(currentImageIndex, timeIntoCurrentImage)\<close> of the first window that
  holds the time, \<open>None\<close> when the loop ends with \<open>currentImageIndex\<close> still \<open>-1\<close>.
\<close>

definition inWindow :: "nat \<Rightarrow> EffectSettings \<Rightarrow> rat \<Rightarrow> nat \<Rightarrow> bool" where
  "inWindow n s currentTimeInVideo i \<longleftrightarrow>
     currentTimeInVideo \<ge> imageDisplayStartTime s i
       \<and> currentTimeInVideo < imageDisplayEndTime n s i"

fun scanSegments :: "nat \<Rightarrow> EffectSettings \<Rightarrow> rat \<Rightarrow> nat list \<Rightarrow> (nat \<times> rat) option" where
  "scanSegments n s currentTimeInVideo [] = None"
| "scanSegments n s currentTimeInVideo (i # rest) =
     (if inWindow n s currentTimeInVideo i
      then Some (i, currentTimeInVideo - imageDisplayStartTime s i)
      else scanSegments n s currentTimeInVideo rest)"

text \<open>\<open>totalDuration\<close> as \<open>generateVideo\<close> computes it from \<open>images.length\<close>.\<close>

definition totalDuration :: "nat \<Rightarrow> EffectSettings \<Rightarrow> rat" where
  "totalDuration n s =
     (let total = of_nat n * durationPerImage s
      in if n > 1 then total + (of_nat n - 1) * transitionDuration s else total)"

text \<open>
  What \<open>drawFrame\<close> decides from the time alone: the recorder is stopped
  (\<open>EndOfTimeline\<close>), or an image index and the time into it; the fallback under
  ``should not happen'' puts the last image at \<open>durationPerImage\<close>.
\<close>

datatype FrameState = EndOfTimeline | Active int rat

definition resolve :: "nat \<Rightarrow> EffectSettings \<Rightarrow> rat \<Rightarrow> FrameState" where
  "resolve n s currentTimeInVideo =
     (case scanSegments n s currentTimeInVideo [0..<n] of
        Some (i, timeIntoCurrentImage) \<Rightarrow> Active (int i) timeIntoCurrentImage
      | None \<Rightarrow>
          if currentTimeInVideo \<ge> totalDuration n s then EndOfTimeline
          else Active (int n - 1) (durationPerImage s))"

section \<open>Rounding to binary64\<close>

text \<open>
  \<open>exponent y\<close> is the \<open>e\<close> with \<open>2^e \<le> |y| < 2^(e+1)\<close>, \<open>ulp y\<close> the spacing of the binary64
  numbers around \<open>y\<close> (53 significant bits, the fixed spacing \<open>2^-1074\<close> below the normal
  range), and \<open>round64 y\<close> the binary64 number nearest to \<open>y\<close>, the one with the even
  significand when two are equally near. Overflow to \<open>Infinity\<close> (from \<open>2^1024\<close> on) is not
  modelled.
\<close>

definition exponent :: "rat \<Rightarrow> int" where
  "exponent y =
     (if 1 \<le> \<bar>y\<bar> then int (floorlog 2 (nat \<lfloor>\<bar>y\<bar>\<rfloor>)) - 1
      else - int (floorlog 2 (nat \<lceil>1 / \<bar>y\<bar>\<rceil> - 1)))"

definition ulp :: "rat \<Rightarrow> rat" where
  "ulp y =
     (let e = max (exponent y) (- 1022) - 52
      in if 0 \<le> e then 2 ^ nat e else 1 / 2 ^ nat (- e))"

definition roundTiesToEven :: "rat \<Rightarrow> int" where
  "roundTiesToEven z =
     (let f = \<lfloor>z\<rfloor>; r = z - of_int f
      in if r < 1 / 2 then f else if r > 1 / 2 then f + 1 else if even f then f else f + 1)"

definition round64 :: "rat \<Rightarrow> rat" where
  "round64 y = of_int (roundTiesToEven (y / ulp y)) * ulp y"

section \<open>The hook state, \<open>generateVideo\<close> and the frame loop\<close>

datatype RecorderState = Inactive | Recording

datatype MimeType = MIME_TYPE_MP4 | MIME_TYPE_WEBM

text \<open>The messages \<open>generateVideo\<close> hands to \<open>setError\<close>, one constructor per message; the
  \<open>onerror\<close> handler of the recorder is not modelled.\<close>

datatype GenError =
    NoImagesSelected
  | MediaRecorderNotSupported
  | CanvasContextFailed
  | MediaRecorderInitFailed MimeType

text \<open>The task labels handed to \<open>setProgress\<close>; \<open>EncodingFrame k n\<close> is ``image k/n''.\<close>

datatype Task = NoTask | Initializing | EncodingFrame int nat | VideoGenerated

record VideoGenerationProgress =
  percentage :: rat
  currentTask :: Task

text \<open>What the generator allocates: the canvas, its capture stream, the recorder.\<close>

datatype Resource = CanvasElement | CaptureStream | MediaRecorderObject

text \<open>One \<open>ctx.drawImage\<close> under the \<open>globalAlpha\<close> in force; \<open>imageIndex\<close> is the index
  into \<open>imageElements\<close> of the image drawn.\<close>

record DrawCall =
  globalAlpha :: rat
  imageIndex :: int
  drawImage :: DrawImageArgs

text \<open>
  The state of the hook and of the closure of \<open>generateVideo\<close>. \<open>frames\<close> holds, oldest
  first, the draw calls of every frame painted on the canvas; \<open>allocations\<close> logs each
  resource as it is created; \<open>animationFrameRequested\<close> says that a \<open>drawFrame\<close> callback
  is queued, \<open>stopEventPending\<close> that a stopped recorder has yet to fire its \<open>stop\<close>
  event; \<open>canvasRef\<close> holds the width and height of the canvas. The recorded chunks and
  the blob behind \<open>videoUrl\<close> are not modelled: \<open>videoUrl\<close> only says whether a URL is
  held.
\<close>

record HookState =
  isGenerating :: bool
  progress :: VideoGenerationProgress
  videoUrl :: bool
  error :: "GenError option"
  generatedMimeType :: "MimeType option"
  mediaRecorder :: "RecorderState option"
  stopEventPending :: bool
  canvasRef :: "(rat \<times> rat) option"
  animationFrameRequested :: bool
  overallTime :: rat
  imageElements :: "HTMLImageElement list"
  frames :: "DrawCall list list"
  allocations :: "Resource list"

text \<open>What the browser answers; \<open>loadImage\<close> decodes a data URL, \<open>None\<close> is \<open>onerror\<close>.\<close>

record Browser =
  mediaRecorderDefined :: bool
  mp4Supported :: bool
  webmSupported :: bool
  getContextSucceeds :: bool
  captureStreamSucceeds :: bool
  newMediaRecorderSucceeds :: bool
  loadImage :: "string \<Rightarrow> HTMLImageElement option"

definition getSupportedMimeType :: "Browser \<Rightarrow> MimeType" where
  "getSupportedMimeType b =
     (if mediaRecorderDefined b \<and> mp4Supported b then MIME_TYPE_MP4
      else if mediaRecorderDefined b \<and> webmSupported b then MIME_TYPE_WEBM
      else MIME_TYPE_WEBM)"

text \<open>\<open>mediaRecorder.stop()\<close>: the recorder is inactive at once, its \<open>stop\<close> event fires
  later.\<close>

definition stopRecorder :: "HookState \<Rightarrow> HookState" where
  "stopRecorder st = st\<lparr>mediaRecorder := Some Inactive, stopEventPending := True\<rparr>"

text \<open>
  \<open>cleanup\<close> is a \<open>useCallback\<close> over \<open>videoUrl\<close>: the function a render creates tests the
  \<open>videoUrl\<close> of that render, here \<open>url\<close>, while the refs it reads are the current ones. It
  cancels the queued frame, stops a recording recorder, drops the recorder, and revokes
  and clears the URL if its render held one.
\<close>

definition cleanupWith :: "bool \<Rightarrow> HookState \<Rightarrow> HookState" where
  "cleanupWith url st =
     (let st1 = st\<lparr>animationFrameRequested := False\<rparr>;
          st2 = (if mediaRecorder st1 = Some Recording then stopRecorder st1 else st1);
          st3 = st2\<lparr>mediaRecorder := None\<rparr>
      in if url then st3\<lparr>videoUrl := False\<rparr> else st3)"

text \<open>\<open>cleanup\<close> as the latest render hands it out.\<close>

definition cleanup :: "HookState \<Rightarrow> HookState" where
  "cleanup st = cleanupWith (videoUrl st) st"

text \<open>
  The effect \<open>useEffect(() => () => cleanup(), [cleanup])\<close>: a render that finds \<open>videoUrl\<close>
  changed gives \<open>cleanup\<close> a new identity, and React then runs the destructor of the
  previous effect, which calls the \<open>cleanup\<close> of the previous render; \<open>previousUrl\<close> is
  the \<open>videoUrl\<close> of that render.
\<close>

definition effectDestructor :: "bool \<Rightarrow> HookState \<Rightarrow> HookState" where
  "effectDestructor previousUrl st =
     (if videoUrl st \<noteq> previousUrl then cleanupWith previousUrl st else st)"

text \<open>
  The \<open>onstop\<close> handler, which the browser runs when the pending event fires. The URL it
  sets is a fresh one, so the render that follows always runs the destructor.
\<close>

definition onstop :: "HookState \<Rightarrow> HookState" where
  "onstop st =
     cleanupWith (videoUrl st)
       (st\<lparr>stopEventPending := False, videoUrl := True, isGenerating := False,
           progress := \<lparr>percentage = 100, currentTask = VideoGenerated\<rparr>\<rparr>)"

text \<open>\<open>const frameDuration = 1000 / 30\<close>, a binary64 quotient.\<close>

definition frameDuration :: rat where
  "frameDuration = round64 (1000 / 30)"

text \<open>\<open>imageElements[i]\<close>: \<open>undefined\<close> outside the array, and reading its width throws.\<close>

datatype JsError = TypeError

definition imageAt :: "HTMLImageElement list \<Rightarrow> int \<Rightarrow> JsError + HTMLImageElement" where
  "imageAt els i = (if 0 \<le> i \<and> i < int (length els) then Inr (els ! nat i) else Inl TypeError)"

definition transitionProgress :: "EffectSettings \<Rightarrow> int \<Rightarrow> rat \<Rightarrow> rat" where
  "transitionProgress s currentImageIndex timeIntoCurrentImage =
     (if timeIntoCurrentImage > durationPerImage s
      then (timeIntoCurrentImage - durationPerImage s) / transitionDuration s
      else if timeIntoCurrentImage < transitionDuration s \<and> currentImageIndex > 0
      then timeIntoCurrentImage / transitionDuration s
      else 1)"

text \<open>The test written twice in \<open>drawFrame\<close>: the current image is fading out.\<close>

definition fadingOut :: "nat \<Rightarrow> EffectSettings \<Rightarrow> int \<Rightarrow> rat \<Rightarrow> bool" where
  "fadingOut n s currentImageIndex timeIntoCurrentImage \<longleftrightarrow>
     timeIntoCurrentImage > durationPerImage s \<and> currentImageIndex < int n - 1"

definition currentAlpha :: "nat \<Rightarrow> EffectSettings \<Rightarrow> int \<Rightarrow> rat \<Rightarrow> rat" where
  "currentAlpha n s currentImageIndex timeIntoCurrentImage =
     (if fadingOut n s currentImageIndex timeIntoCurrentImage
      then 1 - min 1 (transitionProgress s currentImageIndex timeIntoCurrentImage)
      else if timeIntoCurrentImage < transitionDuration s \<and> currentImageIndex > 0
      then min 1 (transitionProgress s currentImageIndex timeIntoCurrentImage)
      else 1)"

text \<open>
  The draw calls of one frame: the current image, then the next one while the current
  one fades out. The canvas has the size \<open>videoWidth\<close> by \<open>videoHeight\<close>.
\<close>

definition paintFrame ::
  "nat \<Rightarrow> EffectSettings \<Rightarrow> HTMLImageElement list \<Rightarrow> int \<Rightarrow> rat \<Rightarrow> JsError + DrawCall list" where
  "paintFrame n s els currentImageIndex timeIntoCurrentImage =
     (case imageAt els currentImageIndex of
        Inl e \<Rightarrow> Inl e
      | Inr img \<Rightarrow>
          (let progressInImage = min 1 (timeIntoCurrentImage / durationPerImage s);
               current = \<lparr>globalAlpha = currentAlpha n s currentImageIndex timeIntoCurrentImage,
                          imageIndex = currentImageIndex,
                          drawImage = applyKenBurnsAndDraw img s progressInImage
                                        (videoWidth s) (videoHeight s)\<rparr>
           in if fadingOut n s currentImageIndex timeIntoCurrentImage then
                (case imageAt els (currentImageIndex + 1) of
                   Inl e \<Rightarrow> Inl e
                 | Inr nextImg \<Rightarrow>
                     Inr [current,
                          \<lparr>globalAlpha =
                             min 1 (transitionProgress s currentImageIndex timeIntoCurrentImage),
                           imageIndex = currentImageIndex + 1,
                           drawImage = applyKenBurnsAndDraw nextImg s 0
                                         (videoWidth s) (videoHeight s)\<rparr>])
              else Inr [current]))"

text \<open>
  One run of the \<open>drawFrame\<close> callback. \<open>timestamp\<close> is the wall-clock time that
  \<open>requestAnimationFrame\<close> hands to its callback; \<open>drawFrame\<close> declares no parameter and
  never reads it. \<open>Inl\<close> is an exception leaving the callback. \<open>overallTime\<close> is a binary64
  running sum, and the bound it is compared with a binary64 product.
\<close>

definition drawFrame ::
  "UploadedImage list \<Rightarrow> EffectSettings \<Rightarrow> rat \<Rightarrow> HookState \<Rightarrow> JsError + HookState" where
  "drawFrame images s timestamp st0 =
     (let st = st0\<lparr>animationFrameRequested := False\<rparr>;
          n = length images
      in if mediaRecorder st \<noteq> Some Recording then Inr st
         else
           (case resolve n s (overallTime st / 1000) of
              EndOfTimeline \<Rightarrow> Inr (stopRecorder st)
            | Active currentImageIndex timeIntoCurrentImage \<Rightarrow>
                (case paintFrame n s (imageElements st) currentImageIndex timeIntoCurrentImage of
                   Inl e \<Rightarrow> Inl e
                 | Inr calls \<Rightarrow>
                     (let t = round64 (overallTime st + frameDuration);
                          st1 = st\<lparr>frames := frames st @ [calls],
                                   overallTime := t,
                                   progress :=
                                     \<lparr>percentage =
                                        min 100 ((t / round64 (totalDuration n s * 1000)) * 100),
                                      currentTask = EncodingFrame (currentImageIndex + 1) n\<rparr>\<rparr>
                      in if t < round64 (totalDuration n s * 1000)
                         then Inr (st1\<lparr>animationFrameRequested := True\<rparr>)
                         else Inr (stopRecorder st1)))))"



text \<open>
  \<open>generateVideo\<close> up to the first queued frame; the canvas it creates is blank, so the
  log of painted frames starts empty. While \<open>generateVideo\<close> awaits the images, React
  renders the state updates made so far: if the hook held a video URL, \<open>cleanup\<close> has
  just cleared it, the render finds \<open>videoUrl\<close> changed, and the destructor of the effect
  runs on the recorder that was just started. (On the paths that return before a
  recorder exists the destructor finds nothing left to stop or to clear.) A data URL
  that fails to decode rejects the promise \<open>generateVideo\<close> awaits: the function ends
  there and no frame is queued.
\<close>

definition allLoaded :: "Browser \<Rightarrow> UploadedImage list \<Rightarrow> HTMLImageElement list option" where
  "allLoaded b images =
     (if \<forall>img \<in> set images. loadImage b (dataUrl img) \<noteq> None
      then Some (map (\<lambda>img. the (loadImage b (dataUrl img))) images)
      else None)"

definition generateVideo ::
  "UploadedImage list \<Rightarrow> EffectSettings \<Rightarrow> Browser \<Rightarrow> HookState \<Rightarrow> HookState" where
  "generateVideo images s b st0 =
     (if length images = 0 then st0\<lparr>error := Some NoImagesSelected\<rparr>
      else if \<not> mediaRecorderDefined b then st0\<lparr>error := Some MediaRecorderNotSupported\<rparr>
      else
        (let actualMimeType = getSupportedMimeType b;
             st1 = (cleanup st0)\<lparr>isGenerating := True, error := None,
                     progress := \<lparr>percentage = 0, currentTask = Initializing\<rparr>,
                     generatedMimeType := Some actualMimeType\<rparr>;
             st2 = st1\<lparr>allocations := allocations st1 @ [CanvasElement], frames := []\<rparr>
         in if \<not> getContextSucceeds b
            then st2\<lparr>error := Some CanvasContextFailed, isGenerating := False\<rparr>
            else
              (let st3 = st2\<lparr>canvasRef := Some (videoWidth s, videoHeight s)\<rparr>
               in if \<not> captureStreamSucceeds b
                  then st3\<lparr>error := Some (MediaRecorderInitFailed actualMimeType),
                           isGenerating := False\<rparr>
                  else if \<not> newMediaRecorderSucceeds b
                  then st3\<lparr>allocations := allocations st3 @ [CaptureStream],
                           error := Some (MediaRecorderInitFailed actualMimeType),
                           isGenerating := False\<rparr>
                  else
                    (let st4 = st3\<lparr>allocations :=
                                     allocations st3 @ [CaptureStream, MediaRecorderObject],
                                   mediaRecorder := Some Recording,
                                   overallTime := 0\<rparr>;
                         st5 = effectDestructor (videoUrl st0) st4
                     in case allLoaded b images of
                          None \<Rightarrow> st5
                        | Some els \<Rightarrow>
                            st5\<lparr>imageElements := els, animationFrameRequested := True\<rparr>))))"

text \<open>The initial values of the hook's state and refs, and of the settings in \<open>App.tsx\<close>.\<close>

definition initialHookState :: HookState where
  "initialHookState =
     \<lparr>isGenerating = False,
      progress = \<lparr>percentage = 0, currentTask = NoTask\<rparr>,
      videoUrl = False,
      error = None,
      generatedMimeType = None,
      mediaRecorder = None,
      stopEventPending = False,
      canvasRef = None,
      animationFrameRequested = False,
      overallTime = 0,
      imageElements = [],
      frames = [],
      allocations = []\<rparr>"

definition defaultSettings :: EffectSettings where
  "defaultSettings =
     \<lparr>durationPerImage = 5,
      transitionDuration = 1,
      kenBurns = \<lparr>enabled = True, zoomFactor = 115 / 100, panDirection = Random\<rparr>,
      videoWidth = 1280,
      videoHeight = 720,
      imageFit = Cover\<rparr>"

text \<open>Concrete inputs for the evaluations below: a browser in which every call succeeds
  and every data URL decodes to a 1920 by 1080 image, that image, the default settings
  with another pan direction, and three uploaded photos.\<close>

definition workingBrowser :: Browser where
  "workingBrowser =
     \<lparr>mediaRecorderDefined = True, mp4Supported = True, webmSupported = True,
      getContextSucceeds = True, captureStreamSucceeds = True, newMediaRecorderSucceeds = True,
      loadImage = (\<lambda>url. Some \<lparr>el_width = 1920, el_height = 1080\<rparr>)\<rparr>"

definition photo :: "string \<Rightarrow> UploadedImage" where
  "photo name = \<lparr>id_img = name, dataUrl = ''data:image/png;base64,'' @ name,
                  width = 1920, height = 1080\<rparr>"

definition largePhoto :: HTMLImageElement where
  "largePhoto = \<lparr>el_width = 1920, el_height = 1080\<rparr>"

definition withPan :: "PanDirection \<Rightarrow> EffectSettings" where
  "withPan d = defaultSettings\<lparr>kenBurns := (kenBurns defaultSettings)\<lparr>panDirection := d\<rparr>\<rparr>"

definition threePhotos :: "UploadedImage list" where
  "threePhotos = [photo ''a'', photo ''b'', photo ''c'']"

text \<open>The state in which \<open>generateVideo\<close> leaves the hook: for one photo, and for three
  photos with the clock moved to 5.5 s, half way through the first crossfade.\<close>

definition onePhotoStarted :: HookState where
  "onePhotoStarted = generateVideo [photo ''a''] defaultSettings workingBrowser initialHookState"

definition threePhotosMidFade :: HookState where
  "threePhotosMidFade =
     (generateVideo threePhotos defaultSettings workingBrowser initialHookState)
       \<lparr>overallTime := 5500\<rparr>"

section \<open>The scan of the timeline\<close>

lemma scanSegments_find:
  "scanSegments n s t js = map_option (\<lambda>i. (i, t - imageDisplayStartTime s i)) (find (inWindow n s t) js)"
  by (induction js) simp_all

lemma scanSegments_Some:
  assumes "i < n" "inWindow n s t i" "\<forall>j<i. \<not> inWindow n s t j"
  shows "scanSegments n s t [0..<n] = Some (i, t - imageDisplayStartTime s i)"
proof -
  have "find (inWindow n s t) [0..<n] = Some i"
    using assms by (auto simp: find_Some_iff intro!: exI[of _ i])
  then show ?thesis by (simp add: scanSegments_find)
qed

lemma scanSegments_None:
  "scanSegments n s t [0..<n] = None \<longleftrightarrow> (\<forall>i<n. \<not> inWindow n s t i)"
  by (auto simp: scanSegments_find find_None_iff)

lemma scanSegments_range:
  "scanSegments n s t [0..<n] = Some (i, x) \<Longrightarrow> i < n \<and> inWindow n s t i \<and> x = t - imageDisplayStartTime s i"
  by (auto simp: scanSegments_find find_Some_iff)

text \<open>
  Claim C5. The scan visits the windows in index order and takes the first one that holds
  the time: the result is that index and the time since that window's start. When no
  window holds the time, the frame loop stops the recorder if the time has reached
  \<open>totalDuration\<close>, and otherwise the last image is shown at \<open>durationPerImage\<close>.
\<close>

theorem resolve_first_window:
  "(\<forall>i. i < n \<and> inWindow n s t i \<and> (\<forall>j<i. \<not> inWindow n s t j) \<longrightarrow>
       resolve n s t = Active (int i) (t - imageDisplayStartTime s i))
   \<and> ((\<forall>i<n. \<not> inWindow n s t i) \<and> t \<ge> totalDuration n s \<longrightarrow> resolve n s t = EndOfTimeline)
   \<and> ((\<forall>i<n. \<not> inWindow n s t i) \<and> t < totalDuration n s \<longrightarrow>
       resolve n s t = Active (int n - 1) (durationPerImage s))
   \<and> (mediaRecorder st = Some Recording \<and> length images = n
        \<and> resolve n s (overallTime st / 1000) = EndOfTimeline \<longrightarrow>
       (\<exists>st'. drawFrame images s timestamp st = Inr st' \<and> mediaRecorder st' = Some Inactive
          \<and> \<not> animationFrameRequested st' \<and> frames st' = frames st))"
proof (intro conjI allI impI)
  fix i
  assume "i < n \<and> inWindow n s t i \<and> (\<forall>j<i. \<not> inWindow n s t j)"
  then have "scanSegments n s t [0..<n] = Some (i, t - imageDisplayStartTime s i)"
    by (simp add: scanSegments_Some)
  then show "resolve n s t = Active (int i) (t - imageDisplayStartTime s i)"
    by (simp add: resolve_def)
next
  assume "(\<forall>i<n. \<not> inWindow n s t i) \<and> t \<ge> totalDuration n s"
  then show "resolve n s t = EndOfTimeline"
    by (simp add: resolve_def scanSegments_None[THEN iffD2])
next
  assume "(\<forall>i<n. \<not> inWindow n s t i) \<and> t < totalDuration n s"
  then show "resolve n s t = Active (int n - 1) (durationPerImage s)"
    by (simp add: resolve_def scanSegments_None[THEN iffD2])
next
  assume "mediaRecorder st = Some Recording \<and> length images = n
        \<and> resolve n s (overallTime st / 1000) = EndOfTimeline"
  then show "\<exists>st'. drawFrame images s timestamp st = Inr st' \<and> mediaRecorder st' = Some Inactive
          \<and> \<not> animationFrameRequested st' \<and> frames st' = frames st"
    by (simp add: drawFrame_def stopRecorder_def)
qed

text \<open>
  The three cases at the default settings: 5.5 s with three images lies in the windows of
  images 0 and 1 and image 0 is taken; 20 s is past the end; 9.5 s with two images lies in
  no window and before the end.
\<close>

theorem resolve_first_window_witness:
  "resolve 3 defaultSettings (11 / 2) = Active 0 (11 / 2)
   \<and> inWindow 3 defaultSettings (11 / 2) 1
   \<and> resolve 3 defaultSettings 20 = EndOfTimeline
   \<and> resolve 2 defaultSettings (19 / 2) = Active 1 5
   \<and> (\<exists>st'. drawFrame threePhotos defaultSettings 0
               (initialHookState\<lparr>mediaRecorder := Some Recording, overallTime := 20000\<rparr>) = Inr st'
          \<and> mediaRecorder st' = Some Inactive)"
proof -
  have w: "inWindow 3 defaultSettings (11 / 2) 0" "inWindow 3 defaultSettings (11 / 2) 1"
    by (simp_all add: inWindow_def imageDisplayStartTime_def imageDisplayEndTime_def defaultSettings_def)
  have n3: "\<forall>i<3. \<not> inWindow 3 defaultSettings 20 i"
    by (simp add: inWindow_def imageDisplayStartTime_def imageDisplayEndTime_def
        defaultSettings_def numeral_3_eq_3 All_less_Suc)
  have n2: "\<forall>i<2. \<not> inWindow 2 defaultSettings (19 / 2) i"
    by (simp add: inWindow_def imageDisplayStartTime_def imageDisplayEndTime_def
        defaultSettings_def numeral_2_eq_2 All_less_Suc)
  have t3: "totalDuration 3 defaultSettings = 17" and t2: "totalDuration 2 defaultSettings = 11"
    by (simp_all add: totalDuration_def defaultSettings_def)
  have a: "resolve 3 defaultSettings (11 / 2) = Active 0 (11 / 2)"
  proof -
    have "0 < (3::nat) \<and> inWindow 3 defaultSettings (11 / 2) 0
        \<and> (\<forall>j<0. \<not> inWindow 3 defaultSettings (11 / 2) j)"
      using w by simp
    from resolve_first_window[THEN conjunct1, rule_format, OF this]
    show ?thesis by (simp add: imageDisplayStartTime_def)
  qed
  have b: "resolve 3 defaultSettings 20 = EndOfTimeline"
  proof -
    have "(\<forall>i<3. \<not> inWindow 3 defaultSettings 20 i) \<and> 20 \<ge> totalDuration 3 defaultSettings"
      using n3 t3 by simp
    from resolve_first_window[THEN conjunct2, THEN conjunct1, rule_format, OF this]
    show ?thesis .
  qed
  have c: "resolve 2 defaultSettings (19 / 2) = Active 1 5"
  proof -
    have "(\<forall>i<2. \<not> inWindow 2 defaultSettings (19 / 2) i) \<and> 19 / 2 < totalDuration 2 defaultSettings"
      using n2 t2 by simp
    from resolve_first_window[THEN conjunct2, THEN conjunct2, THEN conjunct1, rule_format, OF this]
    show ?thesis by (simp add: defaultSettings_def)
  qed
  have d: "\<exists>st'. drawFrame threePhotos defaultSettings 0
               (initialHookState\<lparr>mediaRecorder := Some Recording, overallTime := 20000\<rparr>) = Inr st'
          \<and> mediaRecorder st' = Some Inactive"
  proof -
    have "mediaRecorder (initialHookState\<lparr>mediaRecorder := Some Recording, overallTime := 20000\<rparr>)
          = Some Recording \<and> length threePhotos = 3
        \<and> resolve 3 defaultSettings
            (overallTime (initialHookState\<lparr>mediaRecorder := Some Recording, overallTime := 20000\<rparr>) / 1000)
          = EndOfTimeline"
      using b by (simp add: threePhotos_def)
    from resolve_first_window[THEN conjunct2, THEN conjunct2, THEN conjunct2, rule_format, OF this]
    show ?thesis by blast
  qed
  from a w(2) b c d show ?thesis by blast
qed

section \<open>The windows against the total duration\<close>

text \<open>
  Claim C1. With two images at the default settings (five seconds per image, one second
  of transition) the windows are \<open>[0, 6)\<close> and \<open>[4, 9)\<close>: the last one ends at 9 s while
  \<open>totalDuration\<close> is 11 s, so at 9.5 s the scan finds no window although the video has
  not ended and \<open>drawFrame\<close> falls back to the last image at \<open>durationPerImage\<close>; the
  first two windows overlap by twice the transition.
\<close>

theorem segments_leave_gap:
  "scanSegments 2 defaultSettings (19 / 2) [0..<2] = None
   \<and> 19 / 2 < totalDuration 2 defaultSettings
   \<and> resolve 2 defaultSettings (19 / 2) = Active 1 5
   \<and> imageDisplayEndTime 2 defaultSettings 1 = 9
   \<and> totalDuration 2 defaultSettings = 11
   \<and> imageDisplayEndTime 2 defaultSettings 0 - imageDisplayStartTime defaultSettings 1
       = 2 * transitionDuration defaultSettings"
  by (simp add: resolve_def upt_rec inWindow_def imageDisplayStartTime_def
      imageDisplayEndTime_def totalDuration_def defaultSettings_def)

section \<open>The total duration and the start of a generation\<close>

text \<open>
  Claim C6. For \<open>n \<ge> 1\<close> images the total duration is
  \<open>n * durationPerImage + (n - 1) * transitionDuration\<close>; for no image it is 0, and
  \<open>generateVideo\<close> then only reports the error: nothing else of the state changes.
\<close>

theorem totalDuration_formula:
  "(n \<ge> 1 \<longrightarrow> totalDuration n s
       = of_nat n * durationPerImage s + (of_nat n - 1) * transitionDuration s)
   \<and> totalDuration 0 s = 0
   \<and> (length images = 0 \<longrightarrow> generateVideo images s b st = st\<lparr>error := Some NoImagesSelected\<rparr>)"
  by (cases "n = 1") (auto simp: totalDuration_def generateVideo_def)

text \<open>Three images at the default settings last 17 seconds; no image, no generation.\<close>

theorem totalDuration_formula_witness:
  "(1::nat) \<le> 3 \<and> totalDuration 3 defaultSettings = 17
   \<and> length ([] :: UploadedImage list) = 0
   \<and> generateVideo [] defaultSettings workingBrowser initialHookState
       = initialHookState\<lparr>error := Some NoImagesSelected\<rparr>"
proof -
  have h: "(1::nat) \<le> 3" by simp
  have e: "length ([] :: UploadedImage list) = 0" by simp
  from totalDuration_formula[THEN conjunct1, rule_format, OF h, of defaultSettings]
  have "totalDuration 3 defaultSettings = 17"
    by (simp add: defaultSettings_def)
  moreover from totalDuration_formula[THEN conjunct2, THEN conjunct2, rule_format, OF e]
  have "generateVideo [] defaultSettings workingBrowser initialHookState
       = initialHookState\<lparr>error := Some NoImagesSelected\<rparr>" .
  ultimately show ?thesis using h e by blast
qed

section \<open>Facts about the rounding\<close>

text \<open>
  Evaluation of \<open>round64\<close> on numerals, some binary64 numbers known from elsewhere (the
  nearest to one tenth; the ties at \<open>2^53 + 1\<close> and \<open>2^53 + 3\<close>, which go to the even
  significand), and the bounds that define \<open>exponent\<close>.
\<close>

lemma floor_rat_numeral: "\<lfloor>(numeral a :: rat) / numeral b\<rfloor> = numeral a div numeral b"
  using floor_divide_of_int_eq[of "numeral a" "numeral b", where ?'a = rat] by simp

lemma ceiling_rat_numeral: "\<lceil>(numeral a :: rat) / numeral b\<rceil> = - (- numeral a div numeral b)"
  using ceiling_divide_eq_div[of "numeral a" "numeral b", where ?'a = rat] by simp

lemma floor_rat_neg_numeral:
  "\<lfloor>- ((numeral a :: rat) / numeral b)\<rfloor> = - numeral a div numeral b"
  using floor_divide_of_int_eq[of "- numeral a" "numeral b", where ?'a = rat] by simp

lemmas eval64 = round64_def ulp_def exponent_def roundTiesToEven_def Let_def compute_floorlog
  floor_rat_numeral floor_rat_neg_numeral ceiling_rat_numeral

lemma round64_examples:
  "round64 (1 / 10) = 3602879701896397 / 36028797018963968"
  "round64 5000 = 5000"
  "round64 (- (1 / 10)) = - (3602879701896397 / 36028797018963968)"
  "round64 (9007199254740993) = 9007199254740992"
  "round64 (9007199254740995) = 9007199254740996"
  "round64 (3 / 4) = 3 / 4"
  by (simp_all add: eval64 split del: if_split)

lemma exponent_bounds:
  assumes "0 < y"
  shows "2 powi (exponent y) \<le> y \<and> y < 2 powi (exponent y + 1)"
proof (cases "1 \<le> y")
  case True
  let ?a = "nat \<lfloor>y\<rfloor>"
  from True have a: "0 < ?a" by simp
  from floorlog_bounds[OF a, of 2] have b: "2 ^ (floorlog 2 ?a - 1) \<le> ?a" "?a < 2 ^ floorlog 2 ?a"
    by simp_all
  from a have f: "1 \<le> floorlog 2 ?a" by (simp add: floorlog_def)
  from True have e: "exponent y = int (floorlog 2 ?a - 1)"
    using f by (simp add: exponent_def)
  have ay: "of_nat ?a = (of_int \<lfloor>y\<rfloor> :: rat)" using True by simp
  from b(1) have "(2::rat) ^ (floorlog 2 ?a - 1) \<le> of_nat ?a"
    by (metis of_nat_le_iff of_nat_numeral of_nat_power)
  also have "\<dots> \<le> y" unfolding ay by (rule of_int_floor_le)
  finally have lo: "2 powi (exponent y) \<le> y" by (simp add: e)
  from b(2) have "Suc ?a \<le> 2 ^ floorlog 2 ?a" by (rule Suc_leI)
  then have "(of_nat (Suc ?a) :: rat) \<le> 2 ^ floorlog 2 ?a"
    by (metis of_nat_le_iff of_nat_numeral of_nat_power)
  moreover have "y < of_nat (Suc ?a)" using ay by (simp add: ay) linarith
  ultimately have "y < 2 ^ floorlog 2 ?a" by simp
  moreover have "exponent y + 1 = int (floorlog 2 ?a)" using e f by simp
  ultimately have "y < 2 powi (exponent y + 1)" by simp
  with lo show ?thesis by simp
next
  case False
  with assms have y: "0 < y" "y < 1" by simp_all
  let ?m = "nat \<lceil>1 / y\<rceil>"
  let ?k = "floorlog 2 (?m - 1)"
  from y have "1 < 1 / y" by simp
  then have "1 < \<lceil>1 / y\<rceil>" by (simp add: less_ceiling_iff)
  then have m: "2 \<le> ?m" by linarith
  then have m1: "0 < ?m - 1" by linarith
  from floorlog_bounds[OF m1, of 2] have b: "2 ^ (?k - 1) \<le> ?m - 1" "?m - 1 < 2 ^ ?k"
    by simp_all
  from m1 have k: "1 \<le> ?k" by (simp add: floorlog_def)
  from y have e: "exponent y = - int ?k" by (simp add: exponent_def)
  have my: "(of_nat ?m :: rat) = of_int \<lceil>1 / y\<rceil>" using m by simp
  from b(2) m have "?m \<le> 2 ^ ?k" by linarith
  then have "(of_nat ?m :: rat) \<le> 2 ^ ?k" by (metis of_nat_le_iff of_nat_numeral of_nat_power)
  moreover have "1 / y \<le> of_nat ?m" unfolding my by (rule le_of_int_ceiling)
  ultimately have up: "1 / y \<le> 2 ^ ?k" by (rule order_trans[rotated])
  from b(1) have "(2::rat) ^ (?k - 1) \<le> of_nat (?m - 1)"
    by (metis of_nat_le_iff of_nat_numeral of_nat_power)
  also have "\<dots> = of_nat ?m - 1" using m by simp
  also have "\<dots> < 1 / y" unfolding my by linarith
  finally have lo: "2 ^ (?k - 1) < 1 / y" .
  from up y have "1 \<le> y * 2 ^ ?k" by (simp add: field_simps)
  then have "1 / 2 ^ ?k \<le> y" by (simp add: field_simps)
  then have A: "2 powi (exponent y) \<le> y"
    by (simp add: e power_int_minus_divide)
  from lo y have "y * 2 ^ (?k - 1) < 1" by (simp add: field_simps)
  then have "y < 1 / 2 ^ (?k - 1)" by (simp add: field_simps)
  moreover have "exponent y + 1 = - int (?k - 1)" using e k by simp
  ultimately have "y < 2 powi (exponent y + 1)"
    by (simp add: power_int_minus_divide)
  with A show ?thesis by simp
qed






section \<open>The frame loop\<close>


















section \<open>The crossfade\<close>

lemma fadingOut_from_scan:
  assumes r: "resolve n s t = Active i x" and f: "fadingOut n s i x"
  shows "0 \<le> i \<and> i + 1 < int n \<and> durationPerImage s < x
     \<and> x < durationPerImage s + transitionDuration s"
proof (cases "scanSegments n s t [0..<n]")
  case None
  with r f show ?thesis by (auto simp: resolve_def fadingOut_def split: if_splits)
next
  case (Some p)
  obtain j y where p: "p = (j, y)" by (cases p)
  with Some have j: "j < n" "inWindow n s t j" "y = t - imageDisplayStartTime s j"
    by (auto dest: scanSegments_range)
  from r Some p have ix: "i = int j" "x = y" by (auto simp: resolve_def)
  with f have lt: "int j < int n - 1" and gt: "durationPerImage s < x"
    by (auto simp: fadingOut_def)
  from j(2) lt have "t < imageDisplayStartTime s j + durationPerImage s + transitionDuration s"
    by (simp add: inWindow_def imageDisplayEndTime_def)
  with j(3) ix have "x < durationPerImage s + transitionDuration s" by simp
  with ix lt gt show ?thesis by simp
qed

lemma paintFrame_crossfade:
  assumes f: "fadingOut n s i x" and i: "0 \<le> i" "i + 1 < int (length els)"
    and x: "durationPerImage s < x" "x < durationPerImage s + transitionDuration s"
  shows "\<exists>a b. paintFrame n s els i x = Inr [a, b] \<and> imageIndex a = i \<and> imageIndex b = i + 1
     \<and> globalAlpha a + globalAlpha b = 1 \<and> 0 \<le> globalAlpha a \<and> 0 \<le> globalAlpha b"
proof -
  from x have T: "0 < transitionDuration s" by simp
  have tp: "transitionProgress s i x = (x - durationPerImage s) / transitionDuration s"
    using x by (simp add: transitionProgress_def)
  have "0 \<le> (x - durationPerImage s) / transitionDuration s"
    using x T by simp
  with f i tp show ?thesis
    by (simp add: paintFrame_def imageAt_def Let_def currentAlpha_def)
qed

text \<open>
  Claim C2. On every tick at which the current image \<open>i\<close> fades out, the frame holds two
  draw calls, image \<open>i\<close> and then image \<open>i + 1\<close>, and their alphas add up to 1. On such a
  tick the transition duration is positive, so no quotient by zero is taken.
\<close>

theorem crossfade_alphas_sum_to_one:
  "mediaRecorder st = Some Recording \<and> length (imageElements st) = length images
     \<and> resolve (length images) s (overallTime st / 1000) = Active i x
     \<and> fadingOut (length images) s i x \<longrightarrow>
   (\<exists>st' a b. drawFrame images s timestamp st = Inr st'
      \<and> frames st' = frames st @ [[a, b]]
      \<and> imageIndex a = i \<and> imageIndex b = i + 1
      \<and> globalAlpha a + globalAlpha b = 1
      \<and> 0 \<le> globalAlpha a \<and> 0 \<le> globalAlpha b
      \<and> 0 < transitionDuration s)"
proof
  assume h: "mediaRecorder st = Some Recording \<and> length (imageElements st) = length images
     \<and> resolve (length images) s (overallTime st / 1000) = Active i x
     \<and> fadingOut (length images) s i x"
  then have r: "resolve (length images) s (overallTime st / 1000) = Active i x"
    and f: "fadingOut (length images) s i x" by simp_all
  from fadingOut_from_scan[OF r f] have
    i: "0 \<le> i" "i + 1 < int (length images)"
    and x: "durationPerImage s < x" "x < durationPerImage s + transitionDuration s"
    by simp_all
  from h i have i': "i + 1 < int (length (imageElements st))" by simp
  from paintFrame_crossfade[OF f i(1) i' x] obtain a b where
    p: "paintFrame (length images) s (imageElements st) i x = Inr [a, b]"
    and ab: "imageIndex a = i" "imageIndex b = i + 1" "globalAlpha a + globalAlpha b = 1"
      "0 \<le> globalAlpha a" "0 \<le> globalAlpha b"
    by blast
  from x have T: "0 < transitionDuration s" by simp
  from h r p have "\<exists>st'. drawFrame images s timestamp st = Inr st'
      \<and> frames st' = frames st @ [[a, b]]"
    by (auto simp: drawFrame_def Let_def stopRecorder_def)
  with ab T show "\<exists>st' a b. drawFrame images s timestamp st = Inr st'
      \<and> frames st' = frames st @ [[a, b]]
      \<and> imageIndex a = i \<and> imageIndex b = i + 1
      \<and> globalAlpha a + globalAlpha b = 1
      \<and> 0 \<le> globalAlpha a \<and> 0 \<le> globalAlpha b
      \<and> 0 < transitionDuration s"
    by blast
qed


text \<open>Three photos at 5.5 s: image 0 fades out over image 1.\<close>

theorem crossfade_alphas_sum_to_one_witness:
  "resolve (length threePhotos) defaultSettings (overallTime threePhotosMidFade / 1000)
     = Active 0 (11 / 2)
   \<and> fadingOut (length threePhotos) defaultSettings 0 (11 / 2)
   \<and> (\<exists>st' a b. drawFrame threePhotos defaultSettings 0 threePhotosMidFade = Inr st'
      \<and> frames st' = frames threePhotosMidFade @ [[a, b]]
      \<and> imageIndex a = 0 \<and> imageIndex b = 0 + 1
      \<and> globalAlpha a + globalAlpha b = 1)"
proof -
  have st: "mediaRecorder threePhotosMidFade = Some Recording"
    "length (imageElements threePhotosMidFade) = length threePhotos"
    "overallTime threePhotosMidFade = 5500"
    by (simp_all add: threePhotosMidFade_def generateVideo_def workingBrowser_def allLoaded_def
        cleanup_def cleanupWith_def effectDestructor_def initialHookState_def Let_def
        threePhotos_def)
  have r: "resolve (length threePhotos) defaultSettings (overallTime threePhotosMidFade / 1000)
      = Active 0 (11 / 2)"
    by (simp add: st threePhotos_def resolve_def upt_rec inWindow_def imageDisplayStartTime_def
        imageDisplayEndTime_def defaultSettings_def)
  have f: "fadingOut (length threePhotos) defaultSettings 0 (11 / 2)"
    by (simp add: fadingOut_def threePhotos_def defaultSettings_def)
  have h: "mediaRecorder threePhotosMidFade = Some Recording
     \<and> length (imageElements threePhotosMidFade) = length threePhotos
     \<and> resolve (length threePhotos) defaultSettings (overallTime threePhotosMidFade / 1000)
         = Active 0 (11 / 2)
     \<and> fadingOut (length threePhotos) defaultSettings 0 (11 / 2)"
    using st r f by simp
  from crossfade_alphas_sum_to_one[rule_format, OF h, of 0]
  have "\<exists>st' a b. drawFrame threePhotos defaultSettings 0 threePhotosMidFade = Inr st'
      \<and> frames st' = frames threePhotosMidFade @ [[a, b]]
      \<and> imageIndex a = 0 \<and> imageIndex b = 0 + 1
      \<and> globalAlpha a + globalAlpha b = 1"
    by blast
  with r f show ?thesis by blast
qed

section \<open>The Ken Burns geometry\<close>

lemma fitRects_inside:
  assumes "0 < el_width img" "0 < el_height img" "0 < cw" "0 < ch"
  shows "0 \<le> sx (fitRects img fit cw ch) \<and> 0 \<le> sy (fitRects img fit cw ch)
     \<and> 0 \<le> sWidth (fitRects img fit cw ch) \<and> 0 \<le> sHeight (fitRects img fit cw ch)
     \<and> sx (fitRects img fit cw ch) + sWidth (fitRects img fit cw ch) \<le> el_width img
     \<and> sy (fitRects img fit cw ch) + sHeight (fitRects img fit cw ch) \<le> el_height img"
proof (cases "el_width img / el_height img > cw / ch")
  case True
  then have "el_height img * cw < el_width img * ch"
    using assms by (simp add: field_simps)
  then have "el_height img * (cw / ch) \<le> el_width img"
    using assms by (simp add: field_simps)
  with True assms show ?thesis
    by (simp add: fitRects_def Let_def field_simps)
next
  case False
  then have "el_width img * ch \<le> el_height img * cw"
    using assms by (simp add: field_simps)
  then have "el_width img / (cw / ch) \<le> el_height img"
    using assms by (simp add: field_simps)
  with False assms show ?thesis
    by (simp add: fitRects_def Let_def field_simps)
qed

lemma zoom_ge_1: "1 \<le> zoomFactor kb \<Longrightarrow> 0 \<le> p \<Longrightarrow> 1 \<le> zoom kb p"
  by (simp add: zoom_def)

lemma kenBurnsRect_no_pan:
  "panDirection kb = Random \<or> panDirection kb = ZoomIn \<or> panDirection kb = ZoomOut \<Longrightarrow>
   kenBurnsRect kb r p =
     r\<lparr>sx := sx r + (sWidth r - sWidth r / zoom kb p) / 2,
       sy := sy r + (sHeight r - sHeight r / zoom kb p) / 2,
       sWidth := sWidth r / zoom kb p,
       sHeight := sHeight r / zoom kb p\<rparr>"
  by (auto simp: kenBurnsRect_def offsetX_def offsetY_def Let_def)

lemma shrink_inside:
  fixes w z :: rat
  assumes "0 \<le> w" "1 \<le> z"
  shows "w / z \<le> w" "0 \<le> w / z"
proof -
  from assms have "w * 1 \<le> w * z" by (intro mult_left_mono) simp_all
  with assms show "w / z \<le> w" by (simp add: field_simps)
  from assms show "0 \<le> w / z" by simp
qed

lemma centred_inside:
  fixes x w a :: rat
  assumes "a \<le> w"
  shows "x \<le> x + (w - a) / 2" "x + (w - a) / 2 + a \<le> x + w"
  using assms by (simp_all add: field_simps)

text \<open>
  Claim C3 as stated fails for \<open>zoom-out\<close>: at the default zoom factor 1.15 the zoom at
  progress 0 is 1, not the zoom factor, and at progress 1 it is the zoom factor, not 1.
  The source rectangle of a 1920 by 1080 image starts at its full width and ends shrunk.
\<close>

theorem zoom_out_not_reversed:
  "zoom (kenBurns (withPan ZoomOut)) 0 = 1
   \<and> zoom (kenBurns (withPan ZoomOut)) 0 \<noteq> zoomFactor (kenBurns (withPan ZoomOut))
   \<and> zoom (kenBurns (withPan ZoomOut)) 1 = 115 / 100
   \<and> zoom (kenBurns (withPan ZoomOut)) 1 \<noteq> 1
   \<and> sWidth (applyKenBurnsAndDraw largePhoto (withPan ZoomOut) 0 1280 720) = 1920
   \<and> sWidth (applyKenBurnsAndDraw largePhoto (withPan ZoomOut) 1 1280 720) = 1920 / (115 / 100)"
  by (simp add: zoom_def withPan_def defaultSettings_def applyKenBurnsAndDraw_def
      kenBurnsRect_def fitRects_def largePhoto_def Let_def)

text \<open>
  Claim C3, amended. The zoom is \<open>1 + (zoomFactor - 1) * progressInImage\<close> for every pan
  direction, \<open>zoom-out\<close> included: it is 1 at progress 0 and \<open>zoomFactor\<close> at progress 1,
  and with Ken Burns enabled (a zoom factor of at least 1, an image and a canvas of
  positive size) the source rectangle drawn is the fit rectangle with both sides divided
  by it.
\<close>

theorem zoom_same_for_every_direction:
  "zoom kb p = 1 + (zoomFactor kb - 1) * p
   \<and> zoom kb 0 = 1 \<and> zoom kb 1 = zoomFactor kb
   \<and> zoom (kb\<lparr>panDirection := d\<rparr>) p = zoom kb p
   \<and> (enabled (kenBurns s) \<and> 1 \<le> zoomFactor (kenBurns s) \<and> 0 \<le> p
        \<and> 0 < el_width img \<and> 0 < el_height img \<and> 0 < cw \<and> 0 < ch \<longrightarrow>
        sWidth (applyKenBurnsAndDraw img s p cw ch)
          = sWidth (fitRects img (imageFit s) cw ch) / zoom (kenBurns s) p
      \<and> sHeight (applyKenBurnsAndDraw img s p cw ch)
          = sHeight (fitRects img (imageFit s) cw ch) / zoom (kenBurns s) p)"
  by (simp add: zoom_def applyKenBurnsAndDraw_def kenBurnsRect_def Let_def)

text \<open>
  The amended claim at \<open>zoom-out\<close> and progress 1, on a 1920 by 1080 image.
\<close>

theorem zoom_same_for_every_direction_witness:
  "enabled (kenBurns (withPan ZoomOut))
   \<and> sWidth (applyKenBurnsAndDraw largePhoto (withPan ZoomOut) 1 1280 720)
       = sWidth (fitRects largePhoto (imageFit (withPan ZoomOut)) 1280 720)
           / zoom (kenBurns (withPan ZoomOut)) 1
   \<and> zoom (kenBurns (withPan ZoomOut)) 1 = zoomFactor (kenBurns (withPan ZoomOut))
   \<and> zoom (kenBurns (withPan ZoomOut)) 0 = 1"
proof -
  have "enabled (kenBurns (withPan ZoomOut))"
    by (simp add: withPan_def defaultSettings_def)
  then have h: "enabled (kenBurns (withPan ZoomOut)) \<and> 1 \<le> zoomFactor (kenBurns (withPan ZoomOut))
      \<and> (0::rat) \<le> 1 \<and> 0 < el_width largePhoto \<and> 0 < el_height largePhoto
      \<and> (0::rat) < 1280 \<and> (0::rat) < 720"
    by (simp add: withPan_def defaultSettings_def largePhoto_def)
  note z = zoom_same_for_every_direction[of "kenBurns (withPan ZoomOut)" 1 ZoomOut
      "withPan ZoomOut" largePhoto 1280 720]
  from z[THEN conjunct2, THEN conjunct2, THEN conjunct2, THEN conjunct2, rule_format, OF h]
  have "sWidth (applyKenBurnsAndDraw largePhoto (withPan ZoomOut) 1 1280 720)
       = sWidth (fitRects largePhoto (imageFit (withPan ZoomOut)) 1280 720)
           / zoom (kenBurns (withPan ZoomOut)) 1"
    by (rule conjunct1)
  moreover from z have "zoom (kenBurns (withPan ZoomOut)) 1 = zoomFactor (kenBurns (withPan ZoomOut))"
    and "zoom (kenBurns (withPan ZoomOut)) 0 = 1"
    by blast+
  ultimately show ?thesis using h by blast
qed

text \<open>
  Claim C10. With Ken Burns enabled (a zoom factor of at least 1, an image and a canvas
  of positive size), the pan directions \<open>random\<close>, \<open>zoom-in\<close> and \<open>zoom-out\<close>
  give the same arguments to \<open>drawImage\<close>: the fit source rectangle with both sides divided
  by \<open>1 + (zoomFactor - 1) * progressInImage\<close>, no pan offset, and the same centre.
\<close>

theorem random_zoom_in_zoom_out_same_rect:
  "enabled kb \<and> 1 \<le> zoomFactor kb \<and> 0 \<le> p
     \<and> 0 < el_width img \<and> 0 < el_height img \<and> 0 < cw \<and> 0 < ch \<longrightarrow>
     (let r = fitRects img (imageFit s) cw ch;
          z = 1 + (zoomFactor kb - 1) * p;
          shrunk = r\<lparr>sx := sx r + (sWidth r - sWidth r / z) / 2,
                     sy := sy r + (sHeight r - sHeight r / z) / 2,
                     sWidth := sWidth r / z,
                     sHeight := sHeight r / z\<rparr>
      in applyKenBurnsAndDraw img (s\<lparr>kenBurns := kb\<lparr>panDirection := Random\<rparr>\<rparr>) p cw ch = shrunk
       \<and> applyKenBurnsAndDraw img (s\<lparr>kenBurns := kb\<lparr>panDirection := ZoomIn\<rparr>\<rparr>) p cw ch = shrunk
       \<and> applyKenBurnsAndDraw img (s\<lparr>kenBurns := kb\<lparr>panDirection := ZoomOut\<rparr>\<rparr>) p cw ch = shrunk
       \<and> sx shrunk + sWidth shrunk / 2 = sx r + sWidth r / 2
       \<and> sy shrunk + sHeight shrunk / 2 = sy r + sHeight r / 2)"
  by (simp add: applyKenBurnsAndDraw_def kenBurnsRect_no_pan zoom_def Let_def field_simps)

text \<open>
  The three directions at the default settings, half way through an image.
\<close>

theorem random_zoom_in_zoom_out_same_rect_witness:
  "enabled (kenBurns defaultSettings)
   \<and> applyKenBurnsAndDraw largePhoto (withPan Random) (1 / 2) 1280 720
       = applyKenBurnsAndDraw largePhoto (withPan ZoomIn) (1 / 2) 1280 720
   \<and> applyKenBurnsAndDraw largePhoto (withPan ZoomOut) (1 / 2) 1280 720
       = applyKenBurnsAndDraw largePhoto (withPan ZoomIn) (1 / 2) 1280 720"
proof -
  have e: "enabled (kenBurns defaultSettings)" by (simp add: defaultSettings_def)
  then have h: "enabled (kenBurns defaultSettings) \<and> 1 \<le> zoomFactor (kenBurns defaultSettings)
      \<and> (0::rat) \<le> 1 / 2 \<and> 0 < el_width largePhoto \<and> 0 < el_height largePhoto
      \<and> (0::rat) < 1280 \<and> (0::rat) < 720"
    by (simp add: defaultSettings_def largePhoto_def)
  from random_zoom_in_zoom_out_same_rect[rule_format, OF h, of defaultSettings]
  have "applyKenBurnsAndDraw largePhoto (withPan Random) (1 / 2) 1280 720
       = applyKenBurnsAndDraw largePhoto (withPan ZoomIn) (1 / 2) 1280 720
   \<and> applyKenBurnsAndDraw largePhoto (withPan ZoomOut) (1 / 2) 1280 720
       = applyKenBurnsAndDraw largePhoto (withPan ZoomIn) (1 / 2) 1280 720"
    unfolding withPan_def Let_def by simp
  with e show ?thesis by blast
qed

text \<open>
  Claim C4 as stated fails: nothing clamps the translation. At the default settings with
  \<open>pan-left\<close>, a 1920 by 1080 image at progress 1 gets a source rectangle that starts left
  of the image; with \<open>pan-down\<close> it ends below the image, and the vertical offset, 192, is
  a tenth of the source width, not of the source height 1080.
\<close>

theorem pan_left_leaves_image:
  "1 \<le> zoomFactor (kenBurns (withPan PanLeft))
   \<and> sx (applyKenBurnsAndDraw largePhoto (withPan PanLeft) 1 1280 720) = - (1536 / 23)
   \<and> sx (applyKenBurnsAndDraw largePhoto (withPan PanLeft) 1 1280 720) < 0
   \<and> sy (applyKenBurnsAndDraw largePhoto (withPan PanDown) 1 1280 720)
       + sHeight (applyKenBurnsAndDraw largePhoto (withPan PanDown) 1 1280 720) = 27636 / 23
   \<and> el_height largePhoto
       < sy (applyKenBurnsAndDraw largePhoto (withPan PanDown) 1 1280 720)
         + sHeight (applyKenBurnsAndDraw largePhoto (withPan PanDown) 1 1280 720)
   \<and> offsetY (kenBurns (withPan PanDown)) (fitRects largePhoto Cover 1280 720) 1 = 192
   \<and> sHeight (fitRects largePhoto Cover 1280 720) = 1080"
  by (simp add: withPan_def defaultSettings_def applyKenBurnsAndDraw_def
      kenBurnsRect_def fitRects_def largePhoto_def Let_def zoom_def offsetX_def offsetY_def
      maxPanOffset_def)

text \<open>
  Claim C4, amended. For an image and a canvas of positive size, a zoom factor of at
  least 1 and a progress in \<open>[0, 1]\<close>, the horizontal pan offset is at most a tenth of the
  width of the fit source rectangle; and for the directions without pan offset
  (\<open>random\<close>, \<open>zoom-in\<close>, \<open>zoom-out\<close>) the source rectangle drawn lies inside the fit
  source rectangle, which lies inside the image.
\<close>

theorem pan_offset_bound_and_containment:
  assumes "0 < el_width img" "0 < el_height img" "0 < cw" "0 < ch"
    and "1 \<le> zoomFactor (kenBurns s)" "0 \<le> p" "p \<le> 1" "enabled (kenBurns s)"
  shows "\<bar>offsetX (kenBurns s) (fitRects img (imageFit s) cw ch) p\<bar>
           \<le> (1 / 10) * sWidth (fitRects img (imageFit s) cw ch)
    \<and> (panDirection (kenBurns s) = Random \<or> panDirection (kenBurns s) = ZoomIn
         \<or> panDirection (kenBurns s) = ZoomOut \<longrightarrow>
        0 \<le> sx (fitRects img (imageFit s) cw ch)
      \<and> sx (fitRects img (imageFit s) cw ch) \<le> sx (applyKenBurnsAndDraw img s p cw ch)
      \<and> 0 \<le> sWidth (applyKenBurnsAndDraw img s p cw ch)
      \<and> sx (applyKenBurnsAndDraw img s p cw ch) + sWidth (applyKenBurnsAndDraw img s p cw ch)
           \<le> sx (fitRects img (imageFit s) cw ch) + sWidth (fitRects img (imageFit s) cw ch)
      \<and> sx (fitRects img (imageFit s) cw ch) + sWidth (fitRects img (imageFit s) cw ch)
           \<le> el_width img
      \<and> 0 \<le> sy (fitRects img (imageFit s) cw ch)
      \<and> sy (fitRects img (imageFit s) cw ch) \<le> sy (applyKenBurnsAndDraw img s p cw ch)
      \<and> 0 \<le> sHeight (applyKenBurnsAndDraw img s p cw ch)
      \<and> sy (applyKenBurnsAndDraw img s p cw ch) + sHeight (applyKenBurnsAndDraw img s p cw ch)
           \<le> sy (fitRects img (imageFit s) cw ch) + sHeight (fitRects img (imageFit s) cw ch)
      \<and> sy (fitRects img (imageFit s) cw ch) + sHeight (fitRects img (imageFit s) cw ch)
           \<le> el_height img)"
proof (intro conjI impI)
  let ?r = "fitRects img (imageFit s) cw ch"
  let ?a = "applyKenBurnsAndDraw img s p cw ch"
  let ?z = "zoom (kenBurns s) p"
  from fitRects_inside[OF assms(1-4), of "imageFit s"] have
    r: "0 \<le> sx ?r" "0 \<le> sy ?r" "0 \<le> sWidth ?r" "0 \<le> sHeight ?r"
      "sx ?r + sWidth ?r \<le> el_width img" "sy ?r + sHeight ?r \<le> el_height img"
    by simp_all
  have "\<bar>offsetX (kenBurns s) ?r p\<bar> \<le> \<bar>maxPanOffset ?r * p\<bar>"
    by (simp add: offsetX_def)
  also have "\<dots> = maxPanOffset ?r * p"
    using r(3) assms(6) by (simp add: maxPanOffset_def)
  also have "\<dots> \<le> maxPanOffset ?r * 1"
    using r(3) assms(7) by (intro mult_left_mono) (simp_all add: maxPanOffset_def)
  finally show "\<bar>offsetX (kenBurns s) ?r p\<bar> \<le> (1 / 10) * sWidth ?r"
    by (simp add: maxPanOffset_def)
  assume d: "panDirection (kenBurns s) = Random \<or> panDirection (kenBurns s) = ZoomIn
         \<or> panDirection (kenBurns s) = ZoomOut"
  from assms(5,6) have z: "1 \<le> ?z" by (rule zoom_ge_1)
  have a: "?a = ?r\<lparr>sx := sx ?r + (sWidth ?r - sWidth ?r / ?z) / 2,
       sy := sy ?r + (sHeight ?r - sHeight ?r / ?z) / 2,
       sWidth := sWidth ?r / ?z, sHeight := sHeight ?r / ?z\<rparr>"
    using assms(8) kenBurnsRect_no_pan[OF d] by (simp add: applyKenBurnsAndDraw_def Let_def)
  note w = shrink_inside[OF r(3) z] and h = shrink_inside[OF r(4) z]
  show "0 \<le> sx ?r" "0 \<le> sy ?r" "sx ?r + sWidth ?r \<le> el_width img"
    "sy ?r + sHeight ?r \<le> el_height img"
    by (rule r)+
  show "sx ?r \<le> sx ?a" using centred_inside(1)[OF w(1)] by (simp add: a)
  show "0 \<le> sWidth ?a" using w by (simp add: a)
  show "sx ?a + sWidth ?a \<le> sx ?r + sWidth ?r" using centred_inside(2)[OF w(1)] by (simp add: a)
  show "sy ?r \<le> sy ?a" using centred_inside(1)[OF h(1)] by (simp add: a)
  show "0 \<le> sHeight ?a" using h by (simp add: a)
  show "sy ?a + sHeight ?a \<le> sy ?r + sHeight ?r" using centred_inside(2)[OF h(1)] by (simp add: a)
qed

text \<open>
  The bound at \<open>pan-left\<close> and the containment at \<open>random\<close>, both at progress 1.
\<close>

theorem pan_offset_bound_and_containment_witness:
  "0 < el_width largePhoto \<and> 0 < el_height largePhoto
   \<and> 1 \<le> zoomFactor (kenBurns (withPan PanLeft)) \<and> enabled (kenBurns (withPan PanLeft))
   \<and> \<bar>offsetX (kenBurns (withPan PanLeft)) (fitRects largePhoto (imageFit (withPan PanLeft)) 1280 720) 1\<bar>
        \<le> (1 / 10) * sWidth (fitRects largePhoto (imageFit (withPan PanLeft)) 1280 720)
   \<and> panDirection (kenBurns (withPan Random)) = Random
   \<and> 0 \<le> sx (applyKenBurnsAndDraw largePhoto (withPan Random) 1 1280 720)
   \<and> sx (applyKenBurnsAndDraw largePhoto (withPan Random) 1 1280 720)
        + sWidth (applyKenBurnsAndDraw largePhoto (withPan Random) 1 1280 720)
        \<le> el_width largePhoto
   \<and> 0 \<le> sy (applyKenBurnsAndDraw largePhoto (withPan Random) 1 1280 720)
   \<and> sy (applyKenBurnsAndDraw largePhoto (withPan Random) 1 1280 720)
        + sHeight (applyKenBurnsAndDraw largePhoto (withPan Random) 1 1280 720)
        \<le> el_height largePhoto"
proof -
  have img: "0 < el_width largePhoto" "0 < el_height largePhoto"
    by (simp_all add: largePhoto_def)
  have c: "(0::rat) < 1280" "(0::rat) < 720" "(0::rat) \<le> 1" "(1::rat) \<le> 1" by simp_all
  have l: "1 \<le> zoomFactor (kenBurns (withPan PanLeft))" "enabled (kenBurns (withPan PanLeft))"
    and r: "1 \<le> zoomFactor (kenBurns (withPan Random))" "enabled (kenBurns (withPan Random))"
      "panDirection (kenBurns (withPan Random)) = Random"
    by (simp_all add: withPan_def defaultSettings_def)
  from pan_offset_bound_and_containment[OF img c(1,2) l(1) c(3,4) l(2)]
  have a: "\<bar>offsetX (kenBurns (withPan PanLeft)) (fitRects largePhoto (imageFit (withPan PanLeft)) 1280 720) 1\<bar>
        \<le> (1 / 10) * sWidth (fitRects largePhoto (imageFit (withPan PanLeft)) 1280 720)"
    by (rule conjunct1)
  from pan_offset_bound_and_containment[OF img c(1,2) r(1) c(3,4) r(2), THEN conjunct2] r(3)
  have "0 \<le> sx (applyKenBurnsAndDraw largePhoto (withPan Random) 1 1280 720)
   \<and> sx (applyKenBurnsAndDraw largePhoto (withPan Random) 1 1280 720)
        + sWidth (applyKenBurnsAndDraw largePhoto (withPan Random) 1 1280 720)
        \<le> el_width largePhoto
   \<and> 0 \<le> sy (applyKenBurnsAndDraw largePhoto (withPan Random) 1 1280 720)
   \<and> sy (applyKenBurnsAndDraw largePhoto (withPan Random) 1 1280 720)
        + sHeight (applyKenBurnsAndDraw largePhoto (withPan Random) 1 1280 720)
        \<le> el_height largePhoto"
    by linarith
  with img l r(3) a show ?thesis by blast
qed

text \<open>
  Claim C9 as stated fails: \<open>random\<close> is resolved to no pan direction. At progress 1 the
  rectangle drawn under \<open>random\<close> differs from the one under each of \<open>pan-left\<close>,
  \<open>pan-right\<close>, \<open>pan-up\<close> and \<open>pan-down\<close>, both offsets are zero, and photos with different
  identifiers give the same frame.
\<close>

theorem random_is_no_pan_direction:
  "applyKenBurnsAndDraw largePhoto (withPan Random) 1 1280 720
     \<noteq> applyKenBurnsAndDraw largePhoto (withPan PanLeft) 1 1280 720
   \<and> applyKenBurnsAndDraw largePhoto (withPan Random) 1 1280 720
     \<noteq> applyKenBurnsAndDraw largePhoto (withPan PanRight) 1 1280 720
   \<and> applyKenBurnsAndDraw largePhoto (withPan Random) 1 1280 720
     \<noteq> applyKenBurnsAndDraw largePhoto (withPan PanUp) 1 1280 720
   \<and> applyKenBurnsAndDraw largePhoto (withPan Random) 1 1280 720
     \<noteq> applyKenBurnsAndDraw largePhoto (withPan PanDown) 1 1280 720
   \<and> offsetX (kenBurns (withPan Random)) (fitRects largePhoto Cover 1280 720) 1 = 0
   \<and> offsetY (kenBurns (withPan Random)) (fitRects largePhoto Cover 1280 720) 1 = 0
   \<and> drawFrame [photo ''a''] (withPan Random) 0 onePhotoStarted
       = drawFrame [photo ''b''] (withPan Random) 0 onePhotoStarted"
  by (simp add: withPan_def defaultSettings_def applyKenBurnsAndDraw_def
      kenBurnsRect_def fitRects_def largePhoto_def Let_def zoom_def offsetX_def offsetY_def
      maxPanOffset_def drawFrame_def)

text \<open>
  Claim C9, amended. Under \<open>random\<close> no direction is resolved, per image or per frame: at
  every progress both pan offsets are zero and the rectangle is the one \<open>zoom-in\<close> gives.
  The frame loop reads the number of images only, never an identifier, so the motion of
  an image never changes direction across frames.
\<close>

theorem random_direction_never_resolved:
  "(panDirection kb = Random \<longrightarrow>
      offsetX kb r p = 0 \<and> offsetY kb r p = 0
    \<and> kenBurnsRect kb r p = kenBurnsRect (kb\<lparr>panDirection := ZoomIn\<rparr>) r p)
   \<and> (length images = length images' \<longrightarrow>
        drawFrame images s timestamp st = drawFrame images' s timestamp st)"
  by (simp add: offsetX_def offsetY_def kenBurnsRect_def zoom_def drawFrame_def)

text \<open>
  The amended claim at the default settings, whose direction is \<open>random\<close>.
\<close>

theorem random_direction_never_resolved_witness:
  "panDirection (kenBurns defaultSettings) = Random
   \<and> offsetX (kenBurns defaultSettings) (fitRects largePhoto Cover 1280 720) 1 = 0
   \<and> offsetY (kenBurns defaultSettings) (fitRects largePhoto Cover 1280 720) 1 = 0
   \<and> length [photo ''a''] = length [photo ''b'']
   \<and> drawFrame [photo ''a''] defaultSettings 0 onePhotoStarted
       = drawFrame [photo ''b''] defaultSettings 0 onePhotoStarted"
proof -
  have h: "panDirection (kenBurns defaultSettings) = Random" by (simp add: defaultSettings_def)
  have l: "length [photo ''a''] = length [photo ''b'']" by simp
  from random_direction_never_resolved[THEN conjunct1, rule_format, OF h]
  have "offsetX (kenBurns defaultSettings) (fitRects largePhoto Cover 1280 720) 1 = 0"
    and "offsetY (kenBurns defaultSettings) (fitRects largePhoto Cover 1280 720) 1 = 0"
    by blast+
  moreover from random_direction_never_resolved[THEN conjunct2, rule_format, OF l]
  have "drawFrame [photo ''a''] defaultSettings 0 onePhotoStarted
       = drawFrame [photo ''b''] defaultSettings 0 onePhotoStarted" .
  ultimately show ?thesis using h l by blast
qed

section \<open>What \<open>generateVideo\<close> checks before it allocates\<close>

text \<open>
  Claim C7 as stated fails: the settings are not validated. With one photo and a working
  browser, a duration of zero, a transition as long as the duration, or a canvas width
  of zero all start the generation: canvas, stream and recorder are created and the
  recorder records.
\<close>

theorem invalid_settings_start_generation:
  "isGenerating (generateVideo [photo ''a''] (defaultSettings\<lparr>durationPerImage := 0\<rparr>)
       workingBrowser initialHookState)
   \<and> error (generateVideo [photo ''a''] (defaultSettings\<lparr>durationPerImage := 0\<rparr>)
       workingBrowser initialHookState) = None
   \<and> mediaRecorder (generateVideo [photo ''a''] (defaultSettings\<lparr>durationPerImage := 0\<rparr>)
       workingBrowser initialHookState) = Some Recording
   \<and> allocations (generateVideo [photo ''a''] (defaultSettings\<lparr>durationPerImage := 0\<rparr>)
       workingBrowser initialHookState) = [CanvasElement, CaptureStream, MediaRecorderObject]
   \<and> isGenerating (generateVideo [photo ''a''] (defaultSettings\<lparr>transitionDuration := 5\<rparr>)
       workingBrowser initialHookState)
   \<and> allocations (generateVideo [photo ''a''] (defaultSettings\<lparr>transitionDuration := 5\<rparr>)
       workingBrowser initialHookState) = [CanvasElement, CaptureStream, MediaRecorderObject]
   \<and> isGenerating (generateVideo [photo ''a''] (defaultSettings\<lparr>videoWidth := 0\<rparr>)
       workingBrowser initialHookState)
   \<and> canvasRef (generateVideo [photo ''a''] (defaultSettings\<lparr>videoWidth := 0\<rparr>)
       workingBrowser initialHookState) = Some (0, 720)
   \<and> allocations (generateVideo [photo ''a''] (defaultSettings\<lparr>videoWidth := 0\<rparr>)
       workingBrowser initialHookState) = [CanvasElement, CaptureStream, MediaRecorderObject]"
  by (simp add: generateVideo_def workingBrowser_def allLoaded_def cleanup_def cleanupWith_def
      effectDestructor_def initialHookState_def Let_def defaultSettings_def)

text \<open>
  A generation started while the hook holds the URL of an earlier video does not
  survive the wait for the images: the destructor of the effect stops the new recorder
  and drops it.
\<close>

lemma generateVideo_with_url_held:
  assumes "length images \<noteq> 0" "mediaRecorderDefined b" "getContextSucceeds b"
    "captureStreamSucceeds b" "newMediaRecorderSucceeds b" "videoUrl st"
  shows "mediaRecorder (generateVideo images s b st) = None"
    and "stopEventPending (generateVideo images s b st)"
  using assms
  by (auto simp: generateVideo_def Let_def cleanup_def cleanupWith_def effectDestructor_def
      stopRecorder_def split: option.splits)

text \<open>
  Claim C7, amended. \<open>generateVideo\<close> rejects two cases before it allocates anything,
  changing nothing of the state but the error: no image, and a browser without
  \<open>MediaRecorder\<close>. With an image and a browser in which every call succeeds, and a hook
  that holds no video URL, no recording recorder and no pending \<open>stop\<close> event, it starts
  the generation for every value of the settings.
\<close>

theorem only_missing_images_rejected:
  "(length images = 0 \<longrightarrow> generateVideo images s b st = st\<lparr>error := Some NoImagesSelected\<rparr>)
   \<and> (length images \<noteq> 0 \<and> \<not> mediaRecorderDefined b \<longrightarrow>
        generateVideo images s b st = st\<lparr>error := Some MediaRecorderNotSupported\<rparr>)
   \<and> (length images \<noteq> 0 \<and> mediaRecorderDefined b \<and> getContextSucceeds b
        \<and> captureStreamSucceeds b \<and> newMediaRecorderSucceeds b
        \<and> \<not> videoUrl st \<and> mediaRecorder st \<noteq> Some Recording \<and> \<not> stopEventPending st \<longrightarrow>
        isGenerating (generateVideo images s b st)
      \<and> error (generateVideo images s b st) = None
      \<and> mediaRecorder (generateVideo images s b st) = Some Recording
      \<and> \<not> stopEventPending (generateVideo images s b st)
      \<and> canvasRef (generateVideo images s b st) = Some (videoWidth s, videoHeight s)
      \<and> allocations (generateVideo images s b st)
          = allocations st @ [CanvasElement, CaptureStream, MediaRecorderObject])"
  by (auto simp: generateVideo_def Let_def cleanup_def cleanupWith_def effectDestructor_def
      stopRecorder_def split: option.splits)

text \<open>The three cases, the last one with a duration of zero, from the initial state.\<close>

theorem only_missing_images_rejected_witness:
  "length ([] :: UploadedImage list) = 0
   \<and> generateVideo [] (defaultSettings\<lparr>durationPerImage := 0\<rparr>) workingBrowser initialHookState
       = initialHookState\<lparr>error := Some NoImagesSelected\<rparr>
   \<and> generateVideo [photo ''a''] defaultSettings (workingBrowser\<lparr>mediaRecorderDefined := False\<rparr>)
         initialHookState
       = initialHookState\<lparr>error := Some MediaRecorderNotSupported\<rparr>
   \<and> isGenerating (generateVideo [photo ''a''] (defaultSettings\<lparr>durationPerImage := 0\<rparr>)
         workingBrowser initialHookState)
   \<and> mediaRecorder (generateVideo [photo ''a''] (defaultSettings\<lparr>durationPerImage := 0\<rparr>)
         workingBrowser initialHookState) = Some Recording
   \<and> allocations (generateVideo [photo ''a''] (defaultSettings\<lparr>durationPerImage := 0\<rparr>)
         workingBrowser initialHookState)
       = allocations initialHookState @ [CanvasElement, CaptureStream, MediaRecorderObject]"
proof -
  have e: "length ([] :: UploadedImage list) = 0" by simp
  have n: "length [photo ''a''] \<noteq> 0
      \<and> \<not> mediaRecorderDefined (workingBrowser\<lparr>mediaRecorderDefined := False\<rparr>)"
    by simp
  have w: "length [photo ''a''] \<noteq> 0 \<and> mediaRecorderDefined workingBrowser
      \<and> getContextSucceeds workingBrowser \<and> captureStreamSucceeds workingBrowser
      \<and> newMediaRecorderSucceeds workingBrowser
      \<and> \<not> videoUrl initialHookState \<and> mediaRecorder initialHookState \<noteq> Some Recording
      \<and> \<not> stopEventPending initialHookState"
    by (simp add: workingBrowser_def initialHookState_def)
  from only_missing_images_rejected[THEN conjunct1, rule_format, OF e]
  have a: "generateVideo [] (defaultSettings\<lparr>durationPerImage := 0\<rparr>) workingBrowser initialHookState
       = initialHookState\<lparr>error := Some NoImagesSelected\<rparr>" .
  from only_missing_images_rejected[THEN conjunct2, THEN conjunct1, rule_format, OF n]
  have b: "generateVideo [photo ''a''] defaultSettings (workingBrowser\<lparr>mediaRecorderDefined := False\<rparr>)
         initialHookState
       = initialHookState\<lparr>error := Some MediaRecorderNotSupported\<rparr>" .
  from only_missing_images_rejected[THEN conjunct2, THEN conjunct2, rule_format, OF w,
      of "defaultSettings\<lparr>durationPerImage := 0\<rparr>"]
  have c: "isGenerating (generateVideo [photo ''a''] (defaultSettings\<lparr>durationPerImage := 0\<rparr>)
         workingBrowser initialHookState)
   \<and> mediaRecorder (generateVideo [photo ''a''] (defaultSettings\<lparr>durationPerImage := 0\<rparr>)
         workingBrowser initialHookState) = Some Recording
   \<and> allocations (generateVideo [photo ''a''] (defaultSettings\<lparr>durationPerImage := 0\<rparr>)
         workingBrowser initialHookState)
       = allocations initialHookState @ [CanvasElement, CaptureStream, MediaRecorderObject]"
    by blast
  from e a b c show ?thesis by blast
qed

end
